theory Spec2Isabelle
  imports Complex_Main "HOL-Library.Log_Nat"
begin

section \<open>Python strings\<close>

text \<open>
  A Python \<open>str\<close> is modelled as a \<open>string\<close> whose characters are the code points
  0 to 255.  On that range \<open>str.isspace\<close> holds for the code points listed in
  \<open>is_space\<close>, and \<open>str.lower\<close> moves A-Z and the upper-case letters of Latin-1
  (0xC0-0xDE without the multiplication sign 0xD7) up by 32.
\<close>

definition is_space :: "char \<Rightarrow> bool" where
  "is_space c = ((of_char c :: nat) \<in> {9, 10, 11, 12, 13, 28, 29, 30, 31, 32, 133, 160})"

definition lower_char :: "char \<Rightarrow> char" where
  "lower_char c = (let n = (of_char c :: nat) in
     if (65 \<le> n \<and> n \<le> 90) \<or> (192 \<le> n \<and> n \<le> 214) \<or> (216 \<le> n \<and> n \<le> 222)
     then char_of (n + 32) else c)"

definition py_lower :: "string \<Rightarrow> string" where
  "py_lower s = map lower_char s"

definition py_strip :: "string \<Rightarrow> string" where
  "py_strip s = rev (dropWhile is_space (rev (dropWhile is_space s)))"

definition py_rstrip_char :: "char \<Rightarrow> string \<Rightarrow> string" where
  "py_rstrip_char c s = rev (dropWhile (\<lambda>x. x = c) (rev s))"

fun startswith :: "string \<Rightarrow> string \<Rightarrow> bool" where
  "startswith s [] = True"
| "startswith [] (p # ps) = False"
| "startswith (c # cs) (p # ps) = (c = p \<and> startswith cs ps)"

text \<open>\<open>s.split(sep)\<close> for a separator of one character: the empty string gives \<open>['']\<close>.\<close>

fun split_char :: "char \<Rightarrow> string \<Rightarrow> string list" where
  "split_char sep [] = [[]]"
| "split_char sep (c # cs) =
     (if c = sep then [] # split_char sep cs
      else (case split_char sep cs of
              [] \<Rightarrow> [[c]]
            | w # ws \<Rightarrow> (c # w) # ws))"

text \<open>\<open>s.split(sep, 1)\<close>: at most one split, at the first occurrence of the separator.\<close>

definition split1 :: "char \<Rightarrow> string \<Rightarrow> string list" where
  "split1 sep s =
     (if sep \<in> set s
      then [takeWhile (\<lambda>c. c \<noteq> sep) s, tl (dropWhile (\<lambda>c. c \<noteq> sep) s)]
      else [s])"

text \<open>
  \<open>s.replace(old, new)\<close>: every non-overlapping occurrence of \<open>old\<close>, from the left.
  For the empty \<open>old\<close> Python puts \<open>new\<close> before every character and at the end.
\<close>

function replace_nonempty :: "string \<Rightarrow> string \<Rightarrow> string \<Rightarrow> string" where
  "replace_nonempty old new s =
     (if s = [] \<or> old = [] then s
      else if startswith s old then new @ replace_nonempty old new (drop (length old) s)
      else hd s # replace_nonempty old new (tl s))"
  by pat_completeness auto
termination
  by (relation "measure (\<lambda>(old, new, s). length s)") auto

declare replace_nonempty.simps [simp del]

definition py_replace :: "string \<Rightarrow> string \<Rightarrow> string \<Rightarrow> string" where
  "py_replace s old new =
     (if old = [] then new @ concat (map (\<lambda>c. c # new) s)
      else replace_nonempty old new s)"

section \<open>Exceptions\<close>

text \<open>
  The exception classes the filters can meet.  \<open>InvalidOperation\<close> is
  \<open>decimal.InvalidOperation\<close>; like \<open>OverflowError\<close> and \<open>ZeroDivisionError\<close> it is
  an \<open>ArithmeticError\<close> and none of the three is a subclass of another, nor of
  \<open>ValueError\<close> or \<open>TypeError\<close>.  An \<open>except (A, B)\<close> clause therefore catches exactly
  the listed classes, and \<open>except Exception\<close> catches all of them.
\<close>

datatype pyexc =
  ValueError | TypeError | AttributeError | ZeroDivisionError | OverflowError | InvalidOperation

type_synonym 'a result = "pyexc + 'a"

definition bind_exc :: "'a result \<Rightarrow> ('a \<Rightarrow> 'b result) \<Rightarrow> 'b result" where
  "bind_exc m f = (case m of Inl e \<Rightarrow> Inl e | Inr x \<Rightarrow> f x)"

text \<open>\<open>try: body  except (classes): return handler\<close>\<close>

definition try_except :: "'a result \<Rightarrow> pyexc list \<Rightarrow> 'a \<Rightarrow> 'a result" where
  "try_except body classes handler =
     (case body of
        Inl e \<Rightarrow> (if e \<in> set classes then Inr handler else Inl e)
      | Inr x \<Rightarrow> Inr x)"

text \<open>\<open>try: body  except Exception: return handler\<close>\<close>

definition try_except_all :: "'a result \<Rightarrow> 'a \<Rightarrow> 'a" where
  "try_except_all body handler = (case body of Inl e \<Rightarrow> handler | Inr x \<Rightarrow> x)"

section \<open>Floats\<close>

text \<open>
  A Python \<open>float\<close> is an IEEE 754 binary64 number: a finite value (a rational that
  binary64 represents), an infinity or a NaN.  The two zeros are one value here; no filter
  tells them apart.  \<open>round_double\<close> is round-to-nearest, ties to even, into binary64:
  53 bits of precision, least exponent -1022, overflow at \<open>2 ^ 1024\<close>.  The difference
  \<open>e0\<close> of the bit lengths of numerator and denominator is the binary exponent \<open>e\<close> of
  \<open>\<bar>q\<bar>\<close> or one more.  With \<open>e\<close> that exponent and \<open>m\<close> its rounded significand, in units of
  \<open>2 ^ (e - 52)\<close>, the rounded value reaches \<open>2 ^ 1024\<close> exactly when \<open>e > 1023\<close>, or
  \<open>e = 1023\<close> and \<open>m\<close> was rounded up to \<open>2 ^ 53\<close>.
\<close>

datatype pyfloat = Finite rat | PInf | NInf | NaN

definition pow2 :: "int \<Rightarrow> rat" where
  "pow2 e = (if 0 \<le> e then 2 ^ nat e else 1 / 2 ^ nat (- e))"

definition round_half_even :: "rat \<Rightarrow> int" where
  "round_half_even x =
     (let f = \<lfloor>x\<rfloor>; r = x - of_int f in
      if r < 1 / 2 then f
      else if 1 / 2 < r then f + 1
      else if even f then f else f + 1)"

definition round_double :: "rat \<Rightarrow> pyfloat" where
  "round_double q =
     (if q = 0 then Finite 0
      else
        let a = \<bar>q\<bar>;
            e0 = bitlen (fst (quotient_of a)) - bitlen (snd (quotient_of a))
        in if 1024 < e0 then (if 0 < q then PInf else NInf)
           else
             let e = (if pow2 e0 \<le> a then e0 else e0 - 1);
                 u = max e (- 1022) - 52;
                 m = round_half_even (a / pow2 u)
             in if 1023 < e \<or> (e = 1023 \<and> m = 2 ^ 53) then (if 0 < q then PInf else NInf)
                else Finite (if 0 < q then of_int m * pow2 u else - (of_int m * pow2 u)))"

text \<open>\<open>x // y\<close> on floats, for a finite non-zero divisor: the floor of the quotient.\<close>

definition float_floordiv :: "pyfloat \<Rightarrow> rat \<Rightarrow> pyfloat result" where
  "float_floordiv x y =
     (if y = 0 then Inl ZeroDivisionError
      else (case x of
              Finite a \<Rightarrow> Inr (round_double (of_int \<lfloor>a / y\<rfloor>))
            | _ \<Rightarrow> Inr NaN))"

text \<open>\<open>max(0, x)\<close> keeps the integer 0 unless \<open>x > 0\<close>; a NaN is not greater than 0.\<close>

definition max_zero :: "pyfloat \<Rightarrow> pyfloat" where
  "max_zero x =
     (case x of
        Finite a \<Rightarrow> (if 0 < a then Finite a else Finite 0)
      | PInf \<Rightarrow> PInf
      | NInf \<Rightarrow> Finite 0
      | NaN \<Rightarrow> Finite 0)"

text \<open>\<open>int(x)\<close> truncates towards zero and raises on an infinity or a NaN.\<close>

definition int_of_float :: "pyfloat \<Rightarrow> int result" where
  "int_of_float x =
     (case x of
        Finite a \<Rightarrow> Inr (if 0 \<le> a then \<lfloor>a\<rfloor> else \<lceil>a\<rceil>)
      | PInf \<Rightarrow> Inl OverflowError
      | NInf \<Rightarrow> Inl OverflowError
      | NaN \<Rightarrow> Inl ValueError)"

section \<open>Timestamps and the clock\<close>

text \<open>
  A \<open>datetime\<close> is its wall-clock reading, in microseconds since 1970-01-01 00:00:00 on
  that clock, and its \<open>tzinfo\<close>, which is \<open>None\<close> for a naive value and otherwise
  given by its offset from UTC in microseconds.  Readings range from \<open>datetime.min\<close>
  (0001-01-01 00:00:00) to \<open>datetime.max\<close> (9999-12-31 23:59:59.999999).  A
  \<open>timedelta\<close> is a number of microseconds.  The environment holds what
  \<open>django.utils.timezone\<close> reads from the process: the value of \<open>timezone.now()\<close> (aware
  when the setting \<open>USE_TZ\<close> is on, naive otherwise) and the current time zone.
\<close>

record datetime =
  wall :: int
  tzinfo :: "int option"

record env =
  now :: datetime
  current_timezone :: int

definition is_naive :: "datetime \<Rightarrow> bool" where
  "is_naive d = (tzinfo d = None)"

definition is_aware :: "datetime \<Rightarrow> bool" where
  "is_aware d = (tzinfo d \<noteq> None)"

definition make_aware :: "datetime \<Rightarrow> int \<Rightarrow> datetime result" where
  "make_aware d tz = (if is_aware d then Inl ValueError else Inr (d\<lparr>tzinfo := Some tz\<rparr>))"

definition datetime_min :: int where
  "datetime_min = - 62135596800000000"

definition datetime_max :: int where
  "datetime_max = 253402300799999999"

definition in_datetime_range :: "int \<Rightarrow> bool" where
  "in_datetime_range w = (datetime_min \<le> w \<and> w \<le> datetime_max)"

text \<open>
  \<open>timezone.localtime(d)\<close> is \<open>d.astimezone(tz)\<close> with the current time zone, whose
  object is not the one attached to \<open>d\<close>: the reading is taken to UTC and from there to
  \<open>tz\<close>, and either step raises \<open>OverflowError\<close> when it leaves the range of
  \<open>datetime\<close>.  A naive \<open>d\<close> raises \<open>ValueError\<close>.
\<close>

definition localtime :: "datetime \<Rightarrow> int \<Rightarrow> datetime result" where
  "localtime d tz =
     (case tzinfo d of
        None \<Rightarrow> Inl ValueError
      | Some off \<Rightarrow>
          (if in_datetime_range (wall d - off) \<and> in_datetime_range (wall d - off + tz)
           then Inr \<lparr>wall = wall d - off + tz, tzinfo = Some tz\<rparr>
           else Inl OverflowError))"

text \<open>\<open>a - b\<close>: a naive and an aware value cannot be subtracted.\<close>

definition datetime_sub :: "datetime \<Rightarrow> datetime \<Rightarrow> int result" where
  "datetime_sub a b =
     (case (tzinfo a, tzinfo b) of
        (None, None) \<Rightarrow> Inr (wall a - wall b)
      | (Some oa, Some ob) \<Rightarrow> Inr ((wall a - oa) - (wall b - ob))
      | _ \<Rightarrow> Inl TypeError)"

definition timedelta_days :: "int \<Rightarrow> int" where
  "timedelta_days td = td div 86400000000"

definition total_seconds :: "int \<Rightarrow> pyfloat" where
  "total_seconds td = round_double (of_int td / 1000000)"

record order =
  completed_at :: "datetime option"
  cancelled_at :: "datetime option"
  started_at :: "datetime option"
  assigned_at :: "datetime option"
  created_at :: "datetime option"

text \<open>\<open>getattr(order, attr, None)\<close>\<close>

definition getattr :: "order \<Rightarrow> string \<Rightarrow> datetime option" where
  "getattr ord attr =
     (if attr = ''completed_at'' then completed_at ord
      else if attr = ''cancelled_at'' then cancelled_at ord
      else if attr = ''started_at'' then started_at ord
      else if attr = ''assigned_at'' then assigned_at ord
      else if attr = ''created_at'' then created_at ord
      else None)"

section \<open>The filters on timestamps\<close>

definition timesince_days_body :: "env \<Rightarrow> datetime \<Rightarrow> int result" where
  "timesince_days_body e v =
     bind_exc (if is_naive v then make_aware v (current_timezone e) else Inr v) (\<lambda>v'.
     bind_exc (datetime_sub (now e) v') (\<lambda>delta.
     Inr (timedelta_days delta)))"

definition timesince_days :: "env \<Rightarrow> datetime option \<Rightarrow> int result" where
  "timesince_days e v =
     (case v of
        None \<Rightarrow> Inr 0
      | Some d \<Rightarrow> try_except (timesince_days_body e d) [TypeError, ValueError] 0)"

fun order_last_update_loop :: "env \<Rightarrow> order \<Rightarrow> string list \<Rightarrow> datetime option result" where
  "order_last_update_loop e ord [] = Inr (Some (now e))"
| "order_last_update_loop e ord (attr # attrs) =
     (case getattr ord attr of
        Some val \<Rightarrow>
          (if is_naive val
           then bind_exc (make_aware val (current_timezone e)) (\<lambda>v. Inr (Some v))
           else Inr (Some val))
      | None \<Rightarrow> order_last_update_loop e ord attrs)"

definition order_last_update :: "env \<Rightarrow> order option \<Rightarrow> datetime option" where
  "order_last_update e ord =
     try_except_all
       (case ord of
          None \<Rightarrow> Inr None
        | Some r \<Rightarrow>
            order_last_update_loop e r
              [''completed_at'', ''cancelled_at'', ''started_at'', ''assigned_at'', ''created_at''])
       (Some (now e))"

definition minutes_of_delta :: "int \<Rightarrow> int result" where
  "minutes_of_delta delta =
     bind_exc (float_floordiv (total_seconds delta) 60) (\<lambda>q. int_of_float (max_zero q))"

definition elapsed_minutes_body :: "env \<Rightarrow> order option \<Rightarrow> int result" where
  "elapsed_minutes_body e ord =
     (let start = (case ord of
                     None \<Rightarrow> None
                   | Some r \<Rightarrow> (case getattr r ''started_at'' of
                                 Some s \<Rightarrow> Some s
                               | None \<Rightarrow> getattr r ''created_at''))
      in case start of
           None \<Rightarrow> Inr 0
         | Some s \<Rightarrow>
             bind_exc (if is_aware s then localtime s (current_timezone e) else Inr s) (\<lambda>dt.
             bind_exc (datetime_sub (now e) dt) minutes_of_delta))"

definition elapsed_minutes :: "env \<Rightarrow> order option \<Rightarrow> int" where
  "elapsed_minutes e ord = try_except_all (elapsed_minutes_body e ord) 0"

definition actual_time_minutes_body :: "env \<Rightarrow> order option \<Rightarrow> int result" where
  "actual_time_minutes_body e ord =
     (case ord of
        None \<Rightarrow> Inr 0
      | Some r \<Rightarrow>
          (case (case started_at r of Some s \<Rightarrow> Some s | None \<Rightarrow> created_at r) of
             None \<Rightarrow> Inr 0
           | Some s \<Rightarrow>
               bind_exc (if is_naive s then make_aware s (current_timezone e) else Inr s)
                 (\<lambda>start_time.
               bind_exc
                 (case completed_at r of
                    Some c \<Rightarrow> (if is_naive c then make_aware c (current_timezone e) else Inr c)
                  | None \<Rightarrow> Inr (now e))
                 (\<lambda>end_time.
               bind_exc (datetime_sub end_time start_time) minutes_of_delta))))"

definition actual_time_minutes :: "env \<Rightarrow> order option \<Rightarrow> int" where
  "actual_time_minutes e ord = try_except_all (actual_time_minutes_body e ord) 0"

section \<open>Service names\<close>

definition prefixes :: "string list" where
  "prefixes = [''selected services:'', ''services:'', ''tire services:'', ''add-ons:'']"

definition service_list :: "string \<Rightarrow> string list" where
  "service_list services_text =
     filter (\<lambda>s. s \<noteq> []) (map py_strip (split_char (CHR '','') services_text))"

definition extract_line :: "string \<Rightarrow> string list \<Rightarrow> string list" where
  "extract_line line services =
     (let line_lower = py_lower (py_strip line) in
      fold (\<lambda>prefix acc.
              if startswith line_lower prefix
              then (let services_text =
                          (if CHR '':'' \<in> set line
                           then py_strip (split1 (CHR '':'') line ! 1) else [])
                    in if services_text \<noteq> [] then acc @ service_list services_text else acc)
              else acc)
           prefixes services)"

definition extract_services :: "string option \<Rightarrow> string list" where
  "extract_services description =
     (case description of
        None \<Rightarrow> []
      | Some d \<Rightarrow> (if d = [] then [] else fold extract_line (split_char (CHR 0x0A) d) []))"

section \<open>Numbers as text\<close>

definition is_digit :: "char \<Rightarrow> bool" where
  "is_digit c = (48 \<le> (of_char c :: nat) \<and> (of_char c :: nat) \<le> 57)"

definition digit_char :: "int \<Rightarrow> char" where
  "digit_char n = char_of (48 + n)"

definition int_of_digits :: "string \<Rightarrow> int" where
  "int_of_digits s = foldl (\<lambda>a c. 10 * a + ((of_char c :: int) - 48)) 0 s"

text \<open>The decimal digits of an integer that is not negative.\<close>

function digits_of :: "int \<Rightarrow> string" where
  "digits_of n =
     (if n < 10 then [digit_char n]
      else digits_of (n div 10) @ [digit_char (n mod 10)])"
  by pat_completeness auto
termination
  by (relation "measure nat") auto

declare digits_of.simps [simp del]

definition string_of_int :: "int \<Rightarrow> string" where
  "string_of_int i =
     (if i < 0 then CHR ''-'' # digits_of (- i) else digits_of i)"

text \<open>An optional sign: \<open>True\<close> for a minus.\<close>

definition parse_sign :: "string \<Rightarrow> bool \<times> string" where
  "parse_sign s =
     (case s of
        [] \<Rightarrow> (False, [])
      | c # cs \<Rightarrow>
          (if c = CHR ''-'' then (True, cs)
           else if c = CHR ''+'' then (False, cs)
           else (False, c # cs)))"

text \<open>
  A decimal numeral in lower case, as \<open>float\<close> and \<open>Decimal\<close> read it: digits with an
  optional point and at least one digit before or after it, then an optional exponent
  \<open>e\<close>, sign, digits.  The result is the coefficient and the power of ten.
\<close>

definition parse_number :: "string \<Rightarrow> (int \<times> int) option" where
  "parse_number s =
     (let ip = takeWhile is_digit s;
          r1 = dropWhile is_digit s;
          fp = (case r1 of [] \<Rightarrow> [] | c # t \<Rightarrow> if c = CHR ''.'' then takeWhile is_digit t else []);
          r2 = (case r1 of [] \<Rightarrow> [] | c # t \<Rightarrow> if c = CHR ''.'' then dropWhile is_digit t else r1)
      in if ip = [] \<and> fp = [] then None
         else (case r2 of
                 [] \<Rightarrow> Some (int_of_digits (ip @ fp), - int (length fp))
               | c # t \<Rightarrow>
                   (if c = CHR ''e'' \<and> snd (parse_sign t) \<noteq> [] \<and> list_all is_digit (snd (parse_sign t))
                    then Some (int_of_digits (ip @ fp),
                               (if fst (parse_sign t) then - int_of_digits (snd (parse_sign t))
                                else int_of_digits (snd (parse_sign t))) - int (length fp))
                    else None)))"

definition pow10 :: "int \<Rightarrow> rat" where
  "pow10 e = (if 0 \<le> e then 10 ^ nat e else 1 / 10 ^ nat (- e))"

section \<open>Decimals\<close>

text \<open>
  A \<open>decimal.Decimal\<close>: a sign (\<open>True\<close> for negative), a coefficient and an exponent,
  or an infinity, or a NaN (signalling or quiet, with its diagnostic digits).  Arithmetic
  runs in the default context: 28 digits of precision, rounding half to even, exponents
  between -999999 and 999999, and \<open>InvalidOperation\<close> raised when signalled.
\<close>

datatype decimal = DFinite bool int int | DInf bool | DNaN bool bool string

definition dec_value :: "bool \<Rightarrow> int \<Rightarrow> int \<Rightarrow> rat" where
  "dec_value sg c e = (if sg then - (of_int c * pow10 e) else of_int c * pow10 e)"

text \<open>
  \<open>Decimal(s)\<close> for a string: surrounding whitespace and all underscores are dropped,
  letters match in either case, and anything else than a numeral, an infinity or a NaN
  raises \<open>InvalidOperation\<close>.  The diagnostic digits of a NaN lose their leading
  zeros.  The conversion is exact or fails: a numeral is accepted when it fits the widest
  context (at most 999999999999999999 digits, adjusted exponent at most
  999999999999999999, exponent at least -1999999999999999997) and raises
  \<open>InvalidOperation\<close> otherwise.
\<close>

definition decimal_exact :: "int \<Rightarrow> int \<Rightarrow> bool" where
  "decimal_exact c e =
     (int (length (digits_of c)) \<le> 999999999999999999
      \<and> - 1999999999999999997 \<le> e
      \<and> e + int (length (digits_of c)) - 1 \<le> 999999999999999999)"

definition decimal_of_string :: "string \<Rightarrow> decimal result" where
  "decimal_of_string s =
     (let t = filter (\<lambda>c. c \<noteq> CHR ''_'') (py_strip s);
          sg = fst (parse_sign t);
          r = py_lower (snd (parse_sign t))
      in if r = ''inf'' \<or> r = ''infinity'' then Inr (DInf sg)
         else if startswith r ''nan'' \<and> list_all is_digit (drop 3 r)
           then Inr (DNaN sg False (dropWhile (\<lambda>c. c = CHR ''0'') (drop 3 r)))
         else if startswith r ''snan'' \<and> list_all is_digit (drop 4 r)
           then Inr (DNaN sg True (dropWhile (\<lambda>c. c = CHR ''0'') (drop 4 r)))
         else (case parse_number r of
                 None \<Rightarrow> Inl InvalidOperation
               | Some (c, e) \<Rightarrow>
                   (if decimal_exact c e then Inr (DFinite sg c e)
                    else Inl InvalidOperation)))"

text \<open>\<open>str(d)\<close>: scientific notation with a capital \<open>E\<close> when the exponent is positive
  or the value has more than six leading zeros after the point.\<close>

definition decimal_str :: "decimal \<Rightarrow> string" where
  "decimal_str d =
     (case d of
        DInf sg \<Rightarrow> (if sg then ''-'' else '''') @ ''Infinity''
      | DNaN sg signalling diag \<Rightarrow>
          (if sg then ''-'' else '''') @ (if signalling then ''sNaN'' else ''NaN'') @ diag
      | DFinite sg c e \<Rightarrow>
          (let digits = digits_of c;
               leftdigits = e + int (length digits);
               dotplace = (if e \<le> 0 \<and> - 6 < leftdigits then leftdigits else 1);
               intpart = (if dotplace \<le> 0 then ''0''
                          else if int (length digits) \<le> dotplace
                            then digits @ replicate (nat (dotplace - int (length digits))) (CHR ''0'')
                          else take (nat dotplace) digits);
               fracpart = (if dotplace \<le> 0
                             then ''.'' @ replicate (nat (- dotplace)) (CHR ''0'') @ digits
                           else if int (length digits) \<le> dotplace then ''''
                           else ''.'' @ drop (nat dotplace) digits);
               ex = (if leftdigits = dotplace then ''''
                     else ''E'' @ (if 0 \<le> leftdigits - dotplace then ''+'' else '''')
                          @ string_of_int (leftdigits - dotplace))
           in (if sg then ''-'' else '''') @ intpart @ fracpart @ ex))"

text \<open>
  \<open>num % 1 != 0\<close>.  The remainder raises \<open>InvalidOperation\<close> on a signalling NaN, on
  an infinity and when the integer quotient needs more than 28 digits; a quiet NaN differs
  from 0.  The remainder of a finite value is its fractional part, rounded into the
  context, where it underflows to zero at or below \<open>5E-1000027\<close>.
\<close>

definition decimal_mod1_nonzero :: "decimal \<Rightarrow> bool result" where
  "decimal_mod1_nonzero d =
     (case d of
        DNaN sg signalling diag \<Rightarrow> (if signalling then Inl InvalidOperation else Inr True)
      | DInf sg \<Rightarrow> Inl InvalidOperation
      | DFinite sg c e \<Rightarrow>
          (if c = 0 then Inr False
           else if 0 \<le> e then
             (if 10 ^ 28 \<le> c * 10 ^ nat e then Inl InvalidOperation else Inr False)
           else if 10 ^ 28 \<le> c div 10 ^ nat (- e) then Inl InvalidOperation
           else if c mod 10 ^ nat (- e) = 0 then Inr False
           else if e < - 1000026
             then Inr (\<not> (c mod 10 ^ nat (- e)) * 10 ^ 1000027 \<le> 5 * 10 ^ nat (- e))
           else Inr True))"

text \<open>
  \<open>num.quantize(Decimal('0.01'))\<close>: two places after the point, rounding half to even;
  \<open>InvalidOperation\<close> when the result would need more than 28 digits.
\<close>

definition decimal_quantize2 :: "decimal \<Rightarrow> decimal result" where
  "decimal_quantize2 d =
     (case d of
        DNaN sg signalling diag \<Rightarrow>
          (if signalling then Inl InvalidOperation else Inr (DNaN sg False diag))
      | DInf sg \<Rightarrow> Inl InvalidOperation
      | DFinite sg c e \<Rightarrow>
          (if c = 0 then Inr (DFinite sg 0 (- 2))
           else if 28 < e + int (length (digits_of c)) - 1 + 2 + 1 then Inl InvalidOperation
           else (let q = round_half_even (dec_value False c e * 100)
                 in if 28 < length (digits_of q) then Inl InvalidOperation
                    else Inr (DFinite sg q (- 2)))))"

text \<open>\<open>int(num)\<close> truncates towards zero.\<close>

definition decimal_int :: "decimal \<Rightarrow> int result" where
  "decimal_int d =
     (case d of
        DNaN sg signalling diag \<Rightarrow> Inl ValueError
      | DInf sg \<Rightarrow> Inl OverflowError
      | DFinite sg c e \<Rightarrow>
          (let m = (if 0 \<le> e then c * 10 ^ nat e else c div 10 ^ nat (- e))
           in Inr (if sg then - m else m)))"

section \<open>Floats as text\<close>

text \<open>\<open>float(i)\<close> for an integer: the nearest float, or \<open>OverflowError\<close>.\<close>

definition float_of_int :: "int \<Rightarrow> pyfloat result" where
  "float_of_int i =
     (case round_double (of_int i) of
        PInf \<Rightarrow> Inl OverflowError
      | NInf \<Rightarrow> Inl OverflowError
      | x \<Rightarrow> Inr x)"

text \<open>In the text of a float an underscore must stand between two digits.\<close>

fun underscores_ok :: "char \<Rightarrow> string \<Rightarrow> bool" where
  "underscores_ok prev [] = (prev \<noteq> CHR ''_'')"
| "underscores_ok prev (c # cs) =
     ((if c = CHR ''_'' then is_digit prev
       else if prev = CHR ''_'' then is_digit c else True)
      \<and> underscores_ok c cs)"

text \<open>
  \<open>float(s)\<close> trims an ASCII string by the ASCII whitespace only (tab, line feed,
  vertical tab, form feed, carriage return, space); in a string with a character beyond
  ASCII every whitespace character is first turned into a space, so that all of them are
  trimmed.
\<close>

definition is_ascii_space :: "char \<Rightarrow> bool" where
  "is_ascii_space c = ((of_char c :: nat) \<in> {9, 10, 11, 12, 13, 32})"

definition float_strip :: "string \<Rightarrow> string" where
  "float_strip s =
     (if list_all (\<lambda>c. (of_char c :: nat) < 128) s
      then rev (dropWhile is_ascii_space (rev (dropWhile is_ascii_space s)))
      else py_strip s)"

text \<open>
  \<open>float(s)\<close> for a string: surrounding whitespace is dropped; an optional sign, then
  \<open>inf\<close>, \<open>infinity\<close> or \<open>nan\<close> in either case, or a decimal numeral, which is rounded
  to the nearest float (to an infinity when too large).  Anything else raises
  \<open>ValueError\<close>.
\<close>

definition float_of_string :: "string \<Rightarrow> pyfloat result" where
  "float_of_string s =
     (let t = float_strip s in
      if \<not> underscores_ok (CHR 0x00) t then Inl ValueError
      else
        let u = filter (\<lambda>c. c \<noteq> CHR ''_'') t;
            sg = fst (parse_sign u);
            r = py_lower (snd (parse_sign u))
        in if r = ''inf'' \<or> r = ''infinity'' then Inr (if sg then NInf else PInf)
           else if r = ''nan'' then Inr NaN
           else (case parse_number r of
                   None \<Rightarrow> Inl ValueError
                 | Some (c, e) \<Rightarrow> Inr (round_double (dec_value sg c e))))"

text \<open>
  \<open>repr\<close> of a positive float \<open>q\<close> prints the shortest digit string that reads back
  as \<open>q\<close>, and of those the one nearest to \<open>q\<close>.  \<open>decimal_point q\<close> is the \<open>k\<close> with
  \<open>10 ^ (k - 1) \<le> q < 10 ^ k\<close>; \<open>shortest_digits\<close> tries 1, 2, ... digits, and 17
  always suffice.  The digits are printed with an exponent when the decimal point lies
  more than 16 places to the right of the first digit or more than 3 places to its left.
\<close>

definition decimal_point :: "rat \<Rightarrow> int" where
  "decimal_point q =
     (if 1 \<le> q then int (length (digits_of \<lfloor>q\<rfloor>))
      else (let m = int (length (digits_of \<lfloor>1 / q\<rfloor>))
            in if q = pow10 (1 - m) then 2 - m else 1 - m))"

definition reads_back :: "rat \<Rightarrow> int \<Rightarrow> int \<Rightarrow> bool" where
  "reads_back q m e = (round_double (of_int m * pow10 e) = Finite q)"

definition lower_is_nearer :: "rat \<Rightarrow> int \<Rightarrow> bool" where
  "lower_is_nearer sc lo =
     (sc - of_int lo < of_int lo + 1 - sc \<or> (sc - of_int lo = of_int lo + 1 - sc \<and> even lo))"

definition pick_digits :: "rat \<Rightarrow> rat \<Rightarrow> int \<Rightarrow> int \<Rightarrow> int" where
  "pick_digits q sc lo e =
     (if reads_back q lo e
      then (if reads_back q (lo + 1) e
            then (if lower_is_nearer sc lo then lo else lo + 1)
            else lo)
      else lo + 1)"

function shortest_digits :: "int \<Rightarrow> rat \<Rightarrow> int \<Rightarrow> int \<times> int" where
  "shortest_digits n q k =
     (if 17 \<le> n then (round_half_even (q / pow10 (k - n)), n)
      else if reads_back q \<lfloor>q / pow10 (k - n)\<rfloor> (k - n)
              \<or> reads_back q (\<lfloor>q / pow10 (k - n)\<rfloor> + 1) (k - n)
        then (pick_digits q (q / pow10 (k - n)) \<lfloor>q / pow10 (k - n)\<rfloor> (k - n), n)
      else shortest_digits (n + 1) q k)"
  by pat_completeness auto
termination
  by (relation "measure (\<lambda>(n, q, k). nat (17 - n))") auto

declare shortest_digits.simps [simp del]

definition format_repr :: "string \<Rightarrow> int \<Rightarrow> string" where
  "format_repr ds decpt =
     (if decpt \<le> - 4 \<or> 16 < decpt
      then [hd ds] @ (if 1 < length ds then ''.'' @ tl ds else []) @ ''e''
           @ (if 0 \<le> decpt - 1 then ''+'' else ''-'')
           @ (if \<bar>decpt - 1\<bar> < 10 then ''0'' else []) @ digits_of \<bar>decpt - 1\<bar>
      else if decpt \<le> 0 then ''0.'' @ replicate (nat (- decpt)) (CHR ''0'') @ ds
      else if int (length ds) \<le> decpt
        then ds @ replicate (nat (decpt - int (length ds))) (CHR ''0'') @ ''.0''
      else take (nat decpt) ds @ ''.'' @ drop (nat decpt) ds)"

definition digits_and_point :: "int \<times> int \<Rightarrow> int \<Rightarrow> string" where
  "digits_and_point mn k =
     format_repr (py_rstrip_char (CHR ''0'') (digits_of (fst mn)))
                 (k - snd mn + int (length (digits_of (fst mn))))"

definition float_repr_pos :: "rat \<Rightarrow> string" where
  "float_repr_pos q = digits_and_point (shortest_digits 1 q (decimal_point q)) (decimal_point q)"

definition float_repr :: "pyfloat \<Rightarrow> string" where
  "float_repr x =
     (case x of
        PInf \<Rightarrow> ''inf''
      | NInf \<Rightarrow> ''-inf''
      | NaN \<Rightarrow> ''nan''
      | Finite q \<Rightarrow>
          (if q = 0 then ''0.0''
           else if q < 0 then ''-'' @ float_repr_pos (- q)
           else float_repr_pos q))"

section \<open>Float arithmetic\<close>









section \<open>Values\<close>

text \<open>The values a template passes to the scalar filters.\<close>

datatype pyval =
  PNone | PBool bool | PInt int | PFloat pyfloat | PStr string | PDecimal decimal

text \<open>\<open>str(v)\<close>\<close>

definition py_str :: "pyval \<Rightarrow> string" where
  "py_str v =
     (case v of
        PNone \<Rightarrow> ''None''
      | PBool b \<Rightarrow> (if b then ''True'' else ''False'')
      | PInt i \<Rightarrow> string_of_int i
      | PFloat x \<Rightarrow> float_repr x
      | PStr s \<Rightarrow> s
      | PDecimal d \<Rightarrow> decimal_str d)"

text \<open>The truth value of \<open>v\<close>, as \<open>not v\<close> and \<open>if v\<close> read it.\<close>

definition truthy :: "pyval \<Rightarrow> bool" where
  "truthy v =
     (case v of
        PNone \<Rightarrow> False
      | PBool b \<Rightarrow> b
      | PInt i \<Rightarrow> i \<noteq> 0
      | PFloat x \<Rightarrow> x \<noteq> Finite 0
      | PStr s \<Rightarrow> s \<noteq> []
      | PDecimal d \<Rightarrow> (case d of DFinite sg c e \<Rightarrow> c \<noteq> 0 | _ \<Rightarrow> True))"

text \<open>\<open>float(v)\<close>\<close>

definition py_float :: "pyval \<Rightarrow> pyfloat result" where
  "py_float v =
     (case v of
        PNone \<Rightarrow> Inl TypeError
      | PBool b \<Rightarrow> Inr (Finite (if b then 1 else 0))
      | PInt i \<Rightarrow> float_of_int i
      | PFloat x \<Rightarrow> Inr x
      | PStr s \<Rightarrow> float_of_string s
      | PDecimal d \<Rightarrow>
          (case d of
             DFinite sg c e \<Rightarrow> Inr (round_double (dec_value sg c e))
           | DInf sg \<Rightarrow> Inr (if sg then NInf else PInf)
           | DNaN sg signalling diag \<Rightarrow> (if signalling then Inl ValueError else Inr NaN)))"

section \<open>The filters on strings and numbers\<close>

definition replace :: "pyval \<Rightarrow> pyval \<Rightarrow> pyval result" where
  "replace val arg =
     (if \<not> truthy val then Inr val
      else try_except
             (case arg of
                PStr a \<Rightarrow>
                  (if CHR '':'' \<in> set a
                   then Inr (PStr (py_replace (py_str val)
                                     (split1 (CHR '':'') a ! 0) (split1 (CHR '':'') a ! 1)))
                   else Inr (PStr (py_replace (py_str val) a [])))
              | _ \<Rightarrow> Inl TypeError)
             [ValueError, AttributeError] val)"

definition status_mapping :: "(string \<times> string) list" where
  "status_mapping =
     [(''created'', ''pending''),
      (''assigned'', ''in-progress''),
      (''in_progress'', ''in-progress''),
      (''inprogress'', ''in-progress''),
      (''overdue'', ''overdue''),
      (''completed'', ''completed''),
      (''cancelled'', ''cancelled''),
      (''pending'', ''pending''),
      (''low'', ''low''),
      (''medium'', ''medium''),
      (''high'', ''high''),
      (''urgent'', ''urgent'')]"

definition to_css_class :: "pyval \<Rightarrow> string" where
  "to_css_class val =
     (if \<not> truthy val then []
      else (let v = py_strip (py_lower (py_str val))
            in (case map_of status_mapping v of
                  Some c \<Rightarrow> c
                | None \<Rightarrow> py_replace v ''_'' ''-'')))"





definition format_minutes :: "pyval \<Rightarrow> string result" where
  "format_minutes val =
     try_except
       (if val = PNone then Inr []
        else bind_exc (py_float val) (\<lambda>x.
             bind_exc (int_of_float (max_zero x)) (\<lambda>total.
               if total div 60 \<noteq> 0 \<and> total mod 60 \<noteq> 0
                 then Inr (string_of_int (total div 60) @ ''h '' @ string_of_int (total mod 60) @ ''m'')
               else if total div 60 \<noteq> 0 then Inr (string_of_int (total div 60) @ ''h'')
               else Inr (string_of_int (total mod 60) @ ''m''))))
       [ValueError, TypeError] []"

definition format_qty :: "pyval \<Rightarrow> string result" where
  "format_qty val =
     try_except
       (if val = PNone \<or> val = PStr [] then Inr ''0''
        else bind_exc (decimal_of_string (case val of PStr s \<Rightarrow> s | _ \<Rightarrow> py_str val)) (\<lambda>num.
             bind_exc (decimal_mod1_nonzero num) (\<lambda>fractional.
             bind_exc (if fractional
                       then bind_exc (decimal_quantize2 num) (\<lambda>d. Inr (decimal_str d))
                       else bind_exc (decimal_int num) (\<lambda>i. Inr (string_of_int i)))
               (\<lambda>result.
                  Inr (if CHR ''.'' \<in> set result
                       then py_rstrip_char (CHR ''.'') (py_rstrip_char (CHR ''0'') result)
                       else result)))))
       [ValueError, TypeError, ZeroDivisionError]
       (if val \<noteq> PNone then py_str val else ''0'')"

section \<open>Durations are never negative\<close>

lemma int_of_float_max_zero_nonneg: "int_of_float (max_zero q) = Inr n \<Longrightarrow> 0 \<le> n"
  by (cases q) (auto simp: int_of_float_def max_zero_def split: if_splits)

lemma minutes_of_delta_nonneg: "minutes_of_delta d = Inr n \<Longrightarrow> 0 \<le> n"
  unfolding minutes_of_delta_def bind_exc_def
  by (auto split: sum.splits dest: int_of_float_max_zero_nonneg)

lemma elapsed_minutes_body_nonneg: "elapsed_minutes_body e ord = Inr n \<Longrightarrow> 0 \<le> n"
  unfolding elapsed_minutes_body_def Let_def
  by (auto split: option.splits sum.splits if_splits simp: bind_exc_def
      dest: minutes_of_delta_nonneg)

lemma actual_time_minutes_body_nonneg: "actual_time_minutes_body e ord = Inr n \<Longrightarrow> 0 \<le> n"
  unfolding actual_time_minutes_body_def
  by (auto split: option.splits sum.splits if_splits simp: bind_exc_def
      dest: minutes_of_delta_nonneg)

text \<open>
  C5.  Whatever the clock, the order and its timestamps (missing, naive or aware, before or
  after the current time), \<open>elapsed_minutes\<close> and \<open>actual_time_minutes\<close> return an
  integer that is at least 0.
\<close>

theorem minutes_never_negative:
  "0 \<le> elapsed_minutes e ord \<and> 0 \<le> actual_time_minutes e ord"
  unfolding elapsed_minutes_def actual_time_minutes_def try_except_all_def
  by (auto split: sum.splits
      dest: elapsed_minutes_body_nonneg actual_time_minutes_body_nonneg)

section \<open>The most recent timestamp of an order\<close>

lemma getattr_simps:
  "getattr r ''completed_at'' = completed_at r"
  "getattr r ''cancelled_at'' = cancelled_at r"
  "getattr r ''started_at'' = started_at r"
  "getattr r ''assigned_at'' = assigned_at r"
  "getattr r ''created_at'' = created_at r"
  by (simp_all add: getattr_def)

lemma make_aware_if_naive:
  "(if is_naive d then bind_exc (make_aware d tz) (\<lambda>v. Inr (Some v)) else Inr (Some d))
   = Inr (Some (if tzinfo d = None then d\<lparr>tzinfo := Some tz\<rparr> else d))"
  by (simp add: is_naive_def is_aware_def make_aware_def bind_exc_def)

lemma order_last_update_loop_Cons:
  "order_last_update_loop e r (attr # attrs) =
     (case getattr r attr of
        Some d \<Rightarrow>
          Inr (Some (if tzinfo d = None then d\<lparr>tzinfo := Some (current_timezone e)\<rparr> else d))
      | None \<Rightarrow> order_last_update_loop e r attrs)"
  by (simp add: make_aware_if_naive split: option.splits)

lemma order_last_update_loop_eq:
  "order_last_update_loop e r
     [''completed_at'', ''cancelled_at'', ''started_at'', ''assigned_at'', ''created_at'']
   = Inr (Some
       (case completed_at r of Some d \<Rightarrow> (if tzinfo d = None then d\<lparr>tzinfo := Some (current_timezone e)\<rparr> else d) | None \<Rightarrow>
       (case cancelled_at r of Some d \<Rightarrow> (if tzinfo d = None then d\<lparr>tzinfo := Some (current_timezone e)\<rparr> else d) | None \<Rightarrow>
       (case started_at r of Some d \<Rightarrow> (if tzinfo d = None then d\<lparr>tzinfo := Some (current_timezone e)\<rparr> else d) | None \<Rightarrow>
       (case assigned_at r of Some d \<Rightarrow> (if tzinfo d = None then d\<lparr>tzinfo := Some (current_timezone e)\<rparr> else d) | None \<Rightarrow>
       (case created_at r of Some d \<Rightarrow> (if tzinfo d = None then d\<lparr>tzinfo := Some (current_timezone e)\<rparr> else d) | None \<Rightarrow> now e))))))"
  unfolding order_last_update_loop_Cons getattr_simps order_last_update_loop.simps(1)
  by (cases "completed_at r"; cases "cancelled_at r"; cases "started_at r";
      cases "assigned_at r"; cases "created_at r"; simp)

text \<open>
  C2.  Write \<open>aware d\<close> for \<open>d\<close> with the current time zone attached when \<open>d\<close> is naive,
  and \<open>d\<close> itself otherwise.  For every order record: when \<open>completed_at\<close> is set the
  filter returns \<open>aware\<close> of it, whatever the other four fields hold; in general it returns
  \<open>aware\<close> of the first field that is set in the order \<open>completed_at\<close>, \<open>cancelled_at\<close>,
  \<open>started_at\<close>, \<open>assigned_at\<close>, \<open>created_at\<close>; and when none of the five is set it
  returns the current time.
\<close>

theorem order_last_update_priority:
  fixes e :: env and r :: order
  defines "aware \<equiv>
    (\<lambda>d. if tzinfo d = None then d\<lparr>tzinfo := Some (current_timezone e)\<rparr> else d)"
  shows "(\<forall>c. completed_at r = Some c \<longrightarrow> order_last_update e (Some r) = Some (aware c)) \<and>
     order_last_update e (Some r) =
       Some (case completed_at r of Some d \<Rightarrow> aware d | None \<Rightarrow>
            (case cancelled_at r of Some d \<Rightarrow> aware d | None \<Rightarrow>
            (case started_at r of Some d \<Rightarrow> aware d | None \<Rightarrow>
            (case assigned_at r of Some d \<Rightarrow> aware d | None \<Rightarrow>
            (case created_at r of Some d \<Rightarrow> aware d | None \<Rightarrow> now e))))) \<and>
     (completed_at r = None \<and> cancelled_at r = None \<and> started_at r = None \<and>
      assigned_at r = None \<and> created_at r = None \<longrightarrow>
        order_last_update e (Some r) = Some (now e))"
proof -
  have eq: "order_last_update e (Some r) =
       Some (case completed_at r of Some d \<Rightarrow> aware d | None \<Rightarrow>
            (case cancelled_at r of Some d \<Rightarrow> aware d | None \<Rightarrow>
            (case started_at r of Some d \<Rightarrow> aware d | None \<Rightarrow>
            (case assigned_at r of Some d \<Rightarrow> aware d | None \<Rightarrow>
            (case created_at r of Some d \<Rightarrow> aware d | None \<Rightarrow> now e)))))"
    unfolding order_last_update_def try_except_all_def aware_def
    by (simp only: option.case order_last_update_loop_eq sum.case)
  show ?thesis
  proof (intro conjI allI impI)
    fix c assume "completed_at r = Some c"
    then show "order_last_update e (Some r) = Some (aware c)" by (simp add: eq)
  next
    show "order_last_update e (Some r) =
       Some (case completed_at r of Some d \<Rightarrow> aware d | None \<Rightarrow>
            (case cancelled_at r of Some d \<Rightarrow> aware d | None \<Rightarrow>
            (case started_at r of Some d \<Rightarrow> aware d | None \<Rightarrow>
            (case assigned_at r of Some d \<Rightarrow> aware d | None \<Rightarrow>
            (case created_at r of Some d \<Rightarrow> aware d | None \<Rightarrow> now e)))))" by (rule eq)
  next
    assume "completed_at r = None \<and> cancelled_at r = None \<and> started_at r = None \<and>
      assigned_at r = None \<and> created_at r = None"
    then show "order_last_update e (Some r) = Some (now e)" by (simp add: eq)
  qed
qed

theorem order_last_update_priority_witness:
  "order_last_update \<lparr>now = \<lparr>wall = 900, tzinfo = Some 0\<rparr>, current_timezone = 7\<rparr>
     (Some \<lparr>completed_at = Some \<lparr>wall = 1, tzinfo = None\<rparr>,
            cancelled_at = Some \<lparr>wall = 5, tzinfo = Some 0\<rparr>,
            started_at = Some \<lparr>wall = 4, tzinfo = Some 0\<rparr>,
            assigned_at = Some \<lparr>wall = 3, tzinfo = Some 0\<rparr>,
            created_at = Some \<lparr>wall = 2, tzinfo = Some 0\<rparr>\<rparr>)
   = Some \<lparr>wall = 1, tzinfo = Some 7\<rparr>"
  using order_last_update_priority
    [of "\<lparr>completed_at = Some \<lparr>wall = 1, tzinfo = None\<rparr>,
            cancelled_at = Some \<lparr>wall = 5, tzinfo = Some 0\<rparr>,
            started_at = Some \<lparr>wall = 4, tzinfo = Some 0\<rparr>,
            assigned_at = Some \<lparr>wall = 3, tzinfo = Some 0\<rparr>,
            created_at = Some \<lparr>wall = 2, tzinfo = Some 0\<rparr>\<rparr>"
        "\<lparr>now = \<lparr>wall = 900, tzinfo = Some 0\<rparr>, current_timezone = 7\<rparr>"]
  by simp

section \<open>Days since a timestamp\<close>

lemma neg_div_day: "(x::int) < 0 \<Longrightarrow> x div 86400000000 \<le> - 1"
proof -
  assume "x < 0"
  then have "x div 86400000000 < 0" by (simp add: neg_imp_zdiv_neg_iff)
  then show ?thesis by simp
qed

lemma timesince_days_aware_clock:
  "tzinfo (now e) = Some z \<Longrightarrow>
   timesince_days e (Some v) =
     Inr (timedelta_days ((wall (now e) - z) -
            (wall v - (case tzinfo v of None \<Rightarrow> current_timezone e | Some off \<Rightarrow> off))))"
  by (cases "tzinfo v")
     (simp_all add: timesince_days_def timesince_days_body_def try_except_def bind_exc_def
        is_naive_def is_aware_def make_aware_def datetime_sub_def)

lemma timesince_days_naive_clock:
  "tzinfo (now e) = None \<Longrightarrow> timesince_days e (Some v) = Inr 0"
  by (cases "tzinfo v")
     (simp_all add: timesince_days_def timesince_days_body_def try_except_def bind_exc_def
        is_naive_def is_aware_def make_aware_def datetime_sub_def)

text \<open>
  The claim C10 as stated covers every valid timestamp in the future of the current time.
  With a naive clock (\<open>USE_TZ\<close> off) the filter still makes a naive timestamp aware;
  subtracting the aware value from the naive current time raises \<open>TypeError\<close>, and the
  handler returns 0.  Here the clock reads 0 and the timestamp lies two days ahead on the
  same clock.
\<close>

theorem timesince_days_naive_clock_counterexample:
  "timesince_days \<lparr>now = \<lparr>wall = 0, tzinfo = None\<rparr>, current_timezone = 0\<rparr>
      (Some \<lparr>wall = 172800000000, tzinfo = None\<rparr>) = Inr 0"
  by (simp add: timesince_days_def timesince_days_body_def try_except_def bind_exc_def
        is_naive_def is_aware_def make_aware_def datetime_sub_def)

text \<open>
  C10, as the code has it.  \<open>timesince_days\<close> does not clamp.  Let the clock be aware
  (\<open>USE_TZ\<close> on), and let \<open>v\<close> be a timestamp whose instant (its wall-clock reading
  minus its offset, the current time zone's offset when \<open>v\<close> is naive) lies strictly
  after the clock's.  Then the filter returns the number of days of the difference, which
  is at most -1.
\<close>

theorem timesince_days_future_negative:
  assumes "tzinfo (now e) = Some z"
    and "wall (now e) - z
           < wall v - (case tzinfo v of None \<Rightarrow> current_timezone e | Some off \<Rightarrow> off)"
  shows "\<exists>d. timesince_days e (Some v) = Inr d \<and> d \<le> - 1 \<and>
             d = timedelta_days ((wall (now e) - z) -
                   (wall v - (case tzinfo v of None \<Rightarrow> current_timezone e | Some off \<Rightarrow> off)))"
  using assms(2) timesince_days_aware_clock [OF assms(1), of v]
  by (simp add: timedelta_days_def neg_div_day)

theorem timesince_days_future_negative_witness:
  "timesince_days \<lparr>now = \<lparr>wall = 0, tzinfo = Some 0\<rparr>, current_timezone = 3600000000\<rparr>
      (Some \<lparr>wall = 3600000001, tzinfo = None\<rparr>) = Inr (- 1)"
  using timesince_days_future_negative
    [of "\<lparr>now = \<lparr>wall = 0, tzinfo = Some 0\<rparr>, current_timezone = 3600000000\<rparr>" 0
        "\<lparr>wall = 3600000001, tzinfo = None\<rparr>"]
  by (simp add: timedelta_days_def)

section \<open>Service names: the extracted list\<close>

lemma startswith_Cons:
  "startswith s (p # ps) = (case s of [] \<Rightarrow> False | c # cs \<Rightarrow> c = p \<and> startswith cs ps)"
  by (cases s) simp_all

lemma prefixes_exclusive:
  "startswith l ''selected services:'' \<Longrightarrow> \<not> startswith l ''services:''"
  "startswith l ''selected services:'' \<Longrightarrow> \<not> startswith l ''tire services:''"
  "startswith l ''selected services:'' \<Longrightarrow> \<not> startswith l ''add-ons:''"
  "startswith l ''services:'' \<Longrightarrow> \<not> startswith l ''tire services:''"
  "startswith l ''services:'' \<Longrightarrow> \<not> startswith l ''add-ons:''"
  "startswith l ''tire services:'' \<Longrightarrow> \<not> startswith l ''add-ons:''"
  by (auto simp: startswith_Cons split: list.splits)

lemma py_strip_Nil: "py_strip [] = []"
  by (simp add: py_strip_def)

lemma service_list_Nil: "service_list [] = []"
  by (simp add: service_list_def py_strip_Nil)

lemma services_text_eq:
  "(if CHR '':'' \<in> set line then py_strip (split1 (CHR '':'') line ! 1) else [])
   = py_strip (tl (dropWhile (\<lambda>c. c \<noteq> CHR '':'') line))"
proof (cases "CHR '':'' \<in> set line")
  case True
  then show ?thesis by (simp add: split1_def)
next
  case False
  then have dw: "dropWhile (\<lambda>c. c \<noteq> CHR '':'') line = []"
    by (auto simp: dropWhile_eq_Nil_conv)
  show ?thesis unfolding dw using False by (simp add: py_strip_Nil)
qed

lemma extract_step:
  "(let services_text = (if CHR '':'' \<in> set line then py_strip (split1 (CHR '':'') line ! 1) else [])
    in if services_text \<noteq> [] then acc @ service_list services_text else acc)
   = acc @ service_list (py_strip (tl (dropWhile (\<lambda>c. c \<noteq> CHR '':'') line)))"
  unfolding services_text_eq Let_def
  by (simp add: service_list_Nil)

lemma extract_line_eq:
  "extract_line line acc =
     acc @ (if \<exists>p \<in> set prefixes. startswith (py_lower (py_strip line)) p
            then service_list (py_strip (tl (dropWhile (\<lambda>c. c \<noteq> CHR '':'') line)))
            else [])"
proof -
  let ?L = "py_lower (py_strip line)"
  let ?I = "service_list (py_strip (tl (dropWhile (\<lambda>c. c \<noteq> CHR '':'') line)))"
  have unfold: "extract_line line acc =
      fold (\<lambda>prefix a. if startswith ?L prefix then a @ ?I else a) prefixes acc"
    unfolding extract_line_def
    unfolding extract_step
    unfolding Let_def
    by (rule refl)
  consider (a) "startswith ?L ''selected services:''" | (b) "startswith ?L ''services:''"
    | (c) "startswith ?L ''tire services:''" | (d) "startswith ?L ''add-ons:''"
    | (none) "\<not> startswith ?L ''selected services:''" "\<not> startswith ?L ''services:''"
        "\<not> startswith ?L ''tire services:''" "\<not> startswith ?L ''add-ons:''"
    by blast
  then show ?thesis
  proof cases
    case a
    with prefixes_exclusive(1-3) [OF a] show ?thesis
      unfolding unfold by (simp add: prefixes_def)
  next
    case b
    with prefixes_exclusive(1) [of ?L] prefixes_exclusive(4,5) [OF b] show ?thesis
      unfolding unfold by (auto simp add: prefixes_def)
  next
    case c
    with prefixes_exclusive(2,4) [of ?L] prefixes_exclusive(6) [OF c] show ?thesis
      unfolding unfold by (auto simp add: prefixes_def)
  next
    case d
    with prefixes_exclusive(3,5,6) [of ?L] show ?thesis
      unfolding unfold by (auto simp add: prefixes_def)
  next
    case none
    then show ?thesis
      unfolding unfold by (simp add: prefixes_def)
  qed
qed

lemma fold_extract_line:
  "fold extract_line ls acc =
     acc @ concat (map (\<lambda>line. service_list (py_strip (tl (dropWhile (\<lambda>c. c \<noteq> CHR '':'') line))))
             (filter (\<lambda>line. \<exists>p \<in> set prefixes. startswith (py_lower (py_strip line)) p) ls))"
  by (induction ls arbitrary: acc) (simp_all add: extract_line_eq)

lemma empty_line_no_match:
  "\<not> (\<exists>p \<in> set prefixes. startswith (py_lower (py_strip [])) p)"
  by (simp add: prefixes_def py_strip_Nil py_lower_def)

text \<open>
  The claim C9 as stated promises one entry per comma-separated item.  The text after the
  label of \<open>Services: a,,b\<close> has three comma-separated items, the second one empty; the
  filter returns two entries.
\<close>

theorem extract_services_blank_item_counterexample:
  "length (split_char (CHR '','') '' a,,b'') = 3 \<and>
   extract_services (Some ''Services: a,,b'') = [''a'', ''b'']"
  by code_simp

text \<open>
  C9, as the code has it.  A line matches when, trimmed and lowercased, it starts with one
  of the four label prefixes.  For every input text the result is, over the matching lines
  in source order, the comma-separated items of the text after the line's first colon,
  each item trimmed and the blank ones left out, duplicates kept.  Missing and empty input
  give the empty list.
\<close>

theorem extract_services_items:
  "extract_services None = [] \<and>
   extract_services (Some []) = [] \<and>
   extract_services (Some d) =
     concat (map (\<lambda>line. filter (\<lambda>s. s \<noteq> [])
                    (map py_strip (split_char (CHR '','')
                       (py_strip (tl (dropWhile (\<lambda>c. c \<noteq> CHR '':'') line))))))
       (filter (\<lambda>line. \<exists>p \<in> set prefixes. startswith (py_lower (py_strip line)) p)
          (split_char (CHR 0x0A) d)))"
proof (intro conjI)
  show "extract_services None = []" by (simp add: extract_services_def)
  show "extract_services (Some []) = []" by (simp add: extract_services_def)
  show "extract_services (Some d) =
     concat (map (\<lambda>line. filter (\<lambda>s. s \<noteq> [])
                    (map py_strip (split_char (CHR '','')
                       (py_strip (tl (dropWhile (\<lambda>c. c \<noteq> CHR '':'') line))))))
       (filter (\<lambda>line. \<exists>p \<in> set prefixes. startswith (py_lower (py_strip line)) p)
          (split_char (CHR 0x0A) d)))"
  proof (cases "d = []")
    case True
    then show ?thesis
      using empty_line_no_match by (simp add: extract_services_def)
  next
    case False
    then show ?thesis
      using fold_extract_line [of "split_char (CHR 0x0A) d" "[]"]
      by (simp add: extract_services_def service_list_def)
  qed
qed

theorem extract_services_items_witness:
  "extract_services
     (Some (''Services: Oil Change, Tire Rotation'' @ [CHR 0x0A] @ ''Other: x''))
   = [''Oil Change'', ''Tire Rotation'']"
proof -
  have "concat (map (\<lambda>line. filter (\<lambda>s. s \<noteq> [])
                    (map py_strip (split_char (CHR '','')
                       (py_strip (tl (dropWhile (\<lambda>c. c \<noteq> CHR '':'') line))))))
       (filter (\<lambda>line. \<exists>p \<in> set prefixes. startswith (py_lower (py_strip line)) p)
          (split_char (CHR 0x0A)
             (''Services: Oil Change, Tire Rotation'' @ [CHR 0x0A] @ ''Other: x''))))
     = [''Oil Change'', ''Tire Rotation'']"
    by code_simp
  with extract_services_items
         [of "''Services: Oil Change, Tire Rotation'' @ [CHR 0x0A] @ ''Other: x''"]
  show ?thesis by simp
qed

section \<open>Exceptions that reach the caller\<close>

lemma format_qty_non_numeric: "format_qty (PStr ''abc'') = Inl InvalidOperation"
  by code_simp

lemma replace_non_string_arg: "replace (PStr ''abc'') (PInt 5) = Inl TypeError"
  by code_simp

text \<open>
  C1.  The claim fails on the two inputs it names.  \<open>format_qty\<close> on the non-numeric
  string \<open>abc\<close>: \<open>Decimal('abc')\<close> raises \<open>decimal.InvalidOperation\<close>, which the
  handler for \<open>ValueError\<close>, \<open>TypeError\<close> and \<open>ZeroDivisionError\<close> does not catch.
  \<open>replace\<close> with the integer argument 5: \<open>':' in 5\<close> raises \<open>TypeError\<close>, which the
  handler for \<open>ValueError\<close> and \<open>AttributeError\<close> does not catch.
\<close>

theorem filters_propagate_exceptions:
  "format_qty (PStr ''abc'') = Inl InvalidOperation \<and>
   replace (PStr ''abc'') (PInt 5) = Inl TypeError"
  using format_qty_non_numeric replace_non_string_arg by (rule conjI)

section \<open>Quantities\<close>

lemma format_qty_examples:
  "format_qty (PFloat (Finite 4)) = Inr ''4''"
  "format_qty (PFloat (Finite (9 / 2))) = Inr ''4.5''"
  "format_qty (PFloat (Finite (4559894622712627 / 1125899906842624))) = Inr ''4.05''"
  "format_qty (PDecimal (DFinite False 400 (- 2))) = Inr ''4''"
  "format_qty (PDecimal (DFinite False 450 (- 2))) = Inr ''4.5''"
  "format_qty (PDecimal (DFinite False 405 (- 2))) = Inr ''4.05''"
  "format_qty PNone = Inr ''0''"
  "format_qty (PStr []) = Inr ''0''"
  by code_simp+

lemma float_405: "float_of_string ''4.05'' = Inr (Finite (4559894622712627 / 1125899906842624))"
  by code_simp

text \<open>
  C4.  The claim says that an input whose coercion fails comes back stringified.  The code
  does the opposite for every such string that is not empty: when \<open>Decimal(s)\<close> fails it
  raises \<open>decimal.InvalidOperation\<close>, the handler does not list that class, and the
  exception reaches the caller.
\<close>

theorem format_qty_coercion_failure_raises:
  assumes "decimal_of_string s = Inl InvalidOperation" and "s \<noteq> []"
  shows "format_qty (PStr s) = Inl InvalidOperation"
  using assms by (simp add: format_qty_def try_except_def bind_exc_def)

theorem format_qty_coercion_failure_raises_witness:
  "format_qty (PStr ''N/A'') = Inl InvalidOperation"
proof -
  have "decimal_of_string ''N/A'' = Inl InvalidOperation" by code_simp
  then show ?thesis by (rule format_qty_coercion_failure_raises) simp
qed

section \<open>Minutes\<close>

lemma format_minutes_examples:
  "format_minutes (PInt 90) = Inr ''1h 30m''"
  "format_minutes (PInt 60) = Inr ''1h''"
  "format_minutes (PInt 5) = Inr ''5m''"
  "format_minutes (PInt (- 5)) = Inr ''0m''"
  "format_minutes (PStr ''bad'') = Inr []"
  "format_minutes PNone = Inr []"
  by code_simp+

text \<open>
  C8.  The string \<open>inf\<close> and the float infinity are numeric-coercible: \<open>float\<close> accepts
  them.  \<open>int\<close> of an infinity raises \<open>OverflowError\<close>, which the handler for
  \<open>ValueError\<close> and \<open>TypeError\<close> does not catch, so no string is returned.
\<close>

theorem format_minutes_infinity_raises:
  "py_float (PStr ''inf'') = Inr PInf \<and>
   format_minutes (PStr ''inf'') = Inl OverflowError \<and>
   format_minutes (PFloat PInf) = Inl OverflowError"
  by code_simp

section \<open>Status classes\<close>

lemma replace_underscore:
  "py_replace v ''_'' ''-'' = map (\<lambda>c. if c = CHR ''_'' then CHR ''-'' else c) v"
proof -
  have "replace_nonempty ''_'' ''-'' v = map (\<lambda>c. if c = CHR ''_'' then CHR ''-'' else c) v"
  proof (induction v)
    case Nil
    show ?case by (subst replace_nonempty.simps) simp
  next
    case (Cons c cs)
    show ?case by (subst replace_nonempty.simps) (simp add: Cons.IH)
  qed
  then show ?thesis by (simp add: py_replace_def)
qed

lemma map_of_status_mapping:
  "map_of status_mapping v =
     (if v = ''created'' \<or> v = ''pending'' then Some ''pending''
      else if v = ''assigned'' \<or> v = ''in_progress'' \<or> v = ''inprogress'' then Some ''in-progress''
      else if v \<in> set [''overdue'', ''completed'', ''cancelled'', ''low'', ''medium'', ''high'',
                         ''urgent'']
        then Some v
      else None)"
  by (auto simp: status_mapping_def)

lemma to_css_class_str:
  "to_css_class (PStr s) =
     (let v = py_strip (py_lower s) in
      if v = ''created'' \<or> v = ''pending'' then ''pending''
      else if v = ''assigned'' \<or> v = ''in_progress'' \<or> v = ''inprogress'' then ''in-progress''
      else if v \<in> set [''overdue'', ''completed'', ''cancelled'', ''low'', ''medium'', ''high'',
                         ''urgent'']
        then v
      else map (\<lambda>c. if c = CHR ''_'' then CHR ''-'' else c) v)"
proof (cases "s = []")
  case True
  then show ?thesis
    by (simp add: to_css_class_def truthy_def py_lower_def py_strip_def)
next
  case False
  then have "to_css_class (PStr s) =
      (case map_of status_mapping (py_strip (py_lower s)) of
         Some c \<Rightarrow> c
       | None \<Rightarrow> py_replace (py_strip (py_lower s)) ''_'' ''-'')"
    by (simp add: to_css_class_def truthy_def py_str_def Let_def)
  then show ?thesis
    unfolding map_of_status_mapping replace_underscore Let_def by simp
qed

lemma to_css_class_examples:
  "to_css_class (PStr ''IN_PROGRESS'') = ''in-progress''"
  "to_css_class (PStr ''unknown_status'') = ''unknown-status''"
  "to_css_class (PStr []) = []"
  by code_simp+

text \<open>
  C6.  The three examples hold.  For every input string, with \<open>v\<close> the string lowercased
  and then trimmed: \<open>created\<close> and \<open>pending\<close> give \<open>pending\<close>; \<open>assigned\<close>,
  \<open>in_progress\<close> and \<open>inprogress\<close> give \<open>in-progress\<close>; \<open>overdue\<close>, \<open>completed\<close>,
  \<open>cancelled\<close> and the priorities \<open>low\<close>, \<open>medium\<close>, \<open>high\<close>, \<open>urgent\<close> give
  themselves; any other \<open>v\<close> is returned with each underscore replaced by a hyphen.  The
  empty string gives the empty string.
\<close>

theorem to_css_class_spec:
  "to_css_class (PStr ''IN_PROGRESS'') = ''in-progress'' \<and>
   to_css_class (PStr ''unknown_status'') = ''unknown-status'' \<and>
   to_css_class (PStr []) = [] \<and>
   to_css_class (PStr s) =
     (let v = py_strip (py_lower s) in
      if v = ''created'' \<or> v = ''pending'' then ''pending''
      else if v = ''assigned'' \<or> v = ''in_progress'' \<or> v = ''inprogress'' then ''in-progress''
      else if v \<in> set [''overdue'', ''completed'', ''cancelled'', ''low'', ''medium'', ''high'',
                         ''urgent'']
        then v
      else map (\<lambda>c. if c = CHR ''_'' then CHR ''-'' else c) v)"
  using to_css_class_examples to_css_class_str [of s] by simp
subsection \<open>Idempotence\<close>

lemma lower_char_idem: "lower_char (lower_char c) = lower_char c"
proof -
  have n: "(of_char c :: nat) < 256" by simp
  show ?thesis
    unfolding lower_char_def Let_def
    by (auto simp: of_char_of)
qed

lemma set_py_strip: "set (py_strip s) \<subseteq> set s"
proof -
  have "set (py_strip s) = set (dropWhile is_space (rev (dropWhile is_space s)))"
    by (simp add: py_strip_def)
  also have "\<dots> \<subseteq> set (rev (dropWhile is_space s))"
    by (meson set_dropWhileD subsetI)
  also have "\<dots> \<subseteq> set s"
    using set_dropWhileD by fastforce
  finally show ?thesis .
qed

lemma py_strip_fixed:
  assumes "x = [] \<or> (\<not> is_space (hd x) \<and> \<not> is_space (last x))"
  shows "py_strip x = x"
proof (cases "x = []")
  case True
  then show ?thesis by (simp add: py_strip_def)
next
  case False
  with assms have h: "\<not> is_space (hd x)" and l: "\<not> is_space (last x)" by auto
  from False h have 1: "dropWhile is_space x = x"
    by (cases x) auto
  from False l have 2: "dropWhile is_space (rev x) = rev x"
    by (cases "rev x") (auto simp: hd_rev[symmetric])
  show ?thesis by (simp add: py_strip_def 1 2)
qed

lemma py_strip_ends:
  "py_strip s = [] \<or> (\<not> is_space (hd (py_strip s)) \<and> \<not> is_space (last (py_strip s)))"
proof (cases "py_strip s = []")
  case True
  then show ?thesis by simp
next
  case False
  let ?y = "dropWhile is_space s"
  let ?n = "length (takeWhile is_space (rev ?y))"
  have "dropWhile is_space (rev ?y) = drop ?n (rev ?y)"
    by (rule dropWhile_eq_drop)
  then have "py_strip s = rev (drop ?n (rev ?y))"
    by (simp only: py_strip_def)
  then have z: "py_strip s = take (length ?y - ?n) ?y"
    by (simp only: rev_drop rev_rev_ident length_rev)
  with False have pos: "0 < length ?y - ?n" and yne: "?y \<noteq> []" by auto
  have "hd (py_strip s) = hd ?y" using pos by (simp add: z hd_take)
  moreover have "\<not> is_space (hd ?y)" using yne by (simp add: hd_dropWhile)
  moreover have "last (py_strip s) = hd (dropWhile is_space (rev ?y))"
    using False by (simp add: py_strip_def last_rev)
  moreover have "\<not> is_space (hd (dropWhile is_space (rev ?y)))"
    using False by (simp add: py_strip_def hd_dropWhile)
  ultimately show ?thesis by simp
qed

lemma hyphenate_not_space:
  "is_space (if c = CHR ''_'' then CHR ''-'' else c) = is_space c"
  by (simp add: is_space_def)

lemma hyphenated_fixed:
  fixes u :: string
  defines "v \<equiv> py_strip (py_lower u)"
  defines "w \<equiv> map (\<lambda>c. if c = CHR ''_'' then CHR ''-'' else c) v"
  assumes nokey: "map_of status_mapping v = None"
  shows "to_css_class (PStr w) = w"
proof -
  have lower_w: "py_lower w = w"
  proof -
    have "\<And>c. c \<in> set v \<Longrightarrow> lower_char c = c"
    proof -
      fix c assume "c \<in> set v"
      then have "c \<in> set (py_lower u)" using set_py_strip v_def by blast
      then obtain d where "c = lower_char d" by (auto simp: py_lower_def)
      then show "lower_char c = c" by (simp add: lower_char_idem)
    qed
    moreover have "lower_char (CHR ''-'') = CHR ''-''" by (simp add: lower_char_def)
    ultimately show ?thesis
      unfolding w_def py_lower_def by (induction v) auto
  qed
  have strip_w: "py_strip w = w"
  proof (rule py_strip_fixed)
    from py_strip_ends [of "py_lower u"]
    have "v = [] \<or> (\<not> is_space (hd v) \<and> \<not> is_space (last v))" by (simp add: v_def)
    then show "w = [] \<or> (\<not> is_space (hd w) \<and> \<not> is_space (last w))"
      unfolding w_def by (auto simp: hd_map last_map hyphenate_not_space)
  qed
  have no_us: "CHR ''_'' \<notin> set w" unfolding w_def by auto
  have nokey_w: "map_of status_mapping w = None"
  proof (rule ccontr)
    assume "map_of status_mapping w \<noteq> None"
    then have key: "w \<in> fst ` set status_mapping" by (simp add: map_of_eq_None_iff)
    then have "w = ''in_progress'' \<or> CHR ''-'' \<notin> set w"
      by (auto simp: status_mapping_def)
    with no_us have "CHR ''-'' \<notin> set w" by auto
    then have "w = v" unfolding w_def by (induction v) (auto split: if_splits)
    with key nokey show False by (simp add: map_of_eq_None_iff)
  qed
  have fix_w: "map (\<lambda>c. if c = CHR ''_'' then CHR ''-'' else c) w = w"
    using no_us by (induction w) auto
  show ?thesis
  proof (cases "w = []")
    case True
    then show ?thesis by (simp add: to_css_class_def truthy_def)
  next
    case False
    then show ?thesis
      by (simp add: to_css_class_def truthy_def py_str_def Let_def lower_w strip_w nokey_w
          replace_underscore fix_w)
  qed
qed

lemma canonical_names_fixed:
  "c \<in> snd ` set status_mapping \<Longrightarrow> to_css_class (PStr c) = c"
proof -
  have "list_all (\<lambda>c. to_css_class (PStr c) = c) (map snd status_mapping)"
    by code_simp
  then show "c \<in> snd ` set status_mapping \<Longrightarrow> to_css_class (PStr c) = c"
    by (auto simp: list_all_iff)
qed

lemma to_css_class_fixed_point: "to_css_class (PStr (to_css_class x)) = to_css_class x"
proof (cases "truthy x")
  case False
  then show ?thesis by (simp add: to_css_class_def truthy_def)
next
  case True
  show ?thesis
  proof (cases "map_of status_mapping (py_strip (py_lower (py_str x)))")
    case None
    with True have "to_css_class x =
        map (\<lambda>c. if c = CHR ''_'' then CHR ''-'' else c) (py_strip (py_lower (py_str x)))"
      by (simp add: to_css_class_def Let_def replace_underscore)
    with hyphenated_fixed [OF None] show ?thesis by simp
  next
    case (Some c)
    with True have "to_css_class x = c" by (simp add: to_css_class_def Let_def)
    moreover from Some have "c \<in> snd ` set status_mapping"
      by (metis map_of_SomeD snd_conv image_eqI)
    ultimately show ?thesis by (simp add: canonical_names_fixed)
  qed
qed

text \<open>
  C7.  Every output of \<open>to_css_class\<close> is a fixed point of it: if \<open>v\<close> is the result of
  the filter on some input, then the filter returns \<open>v\<close> on \<open>v\<close>, so applying it twice to
  \<open>v\<close> gives the same as applying it once.
\<close>

theorem to_css_class_idempotent:
  assumes "v = to_css_class x"
  shows "to_css_class (PStr (to_css_class (PStr v))) = to_css_class (PStr v) \<and>
         to_css_class (PStr v) = v"
  using assms by (simp add: to_css_class_fixed_point)

theorem to_css_class_idempotent_witness:
  "to_css_class (PStr (to_css_class (PStr ''in-progress''))) = to_css_class (PStr ''in-progress'')
   \<and> to_css_class (PStr ''in-progress'') = ''in-progress''"
proof -
  have "''in-progress'' = to_css_class (PStr ''IN_PROGRESS'')" by code_simp
  from to_css_class_idempotent [OF this] show ?thesis by simp
qed

section \<open>Margin percentage\<close>













end
